theory Spec2Isabelle
  imports Complex_Main
begin

section \<open>JavaScript numbers, rounding and the random source\<close>

text \<open>
  The analysis code of the repository is TypeScript. Its numbers are IEEE doubles;
  they are modelled as \<^typ>\<open>real\<close>. The mock results of the pages and of the
  valuation service are written with exact arithmetic, and what is proved of them
  are equalities between calls and closed bounds with representable ends, which
  rounding to nearest keeps. The score of the land analysis is written with the
  rounding of each operation, \<open>fl\<close> below, because what holds of it at the upper end
  of its range is decided by that rounding.

  \<open>Math.random()\<close> is the only source of nondeterminism in the functions below. It is
  modelled as an explicit parameter: a \<open>random_source\<close> gives, for \<open>k = 0, 1, 2, ...\<close>,
  the value returned by the \<open>k\<close>-th call of \<open>Math.random()\<close> made while one operation
  runs, in the evaluation order of the source. JavaScript promises
  \<open>0 \<le> Math.random() < 1\<close>; theorems that need it assume it for the draws they read.
\<close>

type_synonym random_source = "nat \<Rightarrow> real"

definition valid_draw :: "real \<Rightarrow> bool" where
  "valid_draw r \<longleftrightarrow> 0 \<le> r \<and> r < 1"

text \<open>\<open>Math.floor\<close> and \<open>Math.round\<close> (which rounds a tie towards \<open>+\<infinity>\<close>).\<close>

definition Math_floor :: "real \<Rightarrow> int" where
  "Math_floor x = \<lfloor>x\<rfloor>"

definition Math_round :: "real \<Rightarrow> int" where
  "Math_round x = \<lfloor>x + 1 / 2\<rfloor>"

text \<open>
  \<open>Number(x.toFixed(d))\<close>: \<open>x\<close> rounded to \<open>d\<close> decimals. \<open>toFixed\<close> takes the sign
  off first and picks the larger candidate on a tie, so ties round away from zero.
\<close>

definition toFixed :: "nat \<Rightarrow> real \<Rightarrow> real" where
  "toFixed d x =
     (if x < 0 then - (of_int \<lfloor>(- x) * 10 ^ d + 1 / 2\<rfloor> / 10 ^ d)
      else of_int \<lfloor>x * 10 ^ d + 1 / 2\<rfloor> / 10 ^ d)"

text \<open>
  Rounding to a double: \<open>fl x\<close> is the double nearest to \<open>x\<close>, a tie going to the
  even significand. \<open>expo x\<close> is the binary exponent of a positive \<open>x\<close>, found by a
  bounded search, \<open>ulp x\<close> the spacing of the doubles around \<open>x\<close> (53 significant
  bits, and the fixed spacing of the subnormal range). Overflow to infinity, beyond
  \<open>2^1024\<close>, is not modelled; no value below comes near it.
\<close>

definition round_half_even :: "real \<Rightarrow> int" where
  "round_half_even q =
     (let f = \<lfloor>q\<rfloor> in
      if q - of_int f < 1 / 2 then f
      else if 1 / 2 < q - of_int f then f + 1
      else if even f then f else f + 1)"

fun expo_from :: "nat \<Rightarrow> int \<Rightarrow> real \<Rightarrow> int" where
  "expo_from 0 e x = e"
| "expo_from (Suc n) e x =
     (if x < 2 powi e then expo_from n (e - 1) x
      else if 2 powi (e + 1) \<le> x then expo_from n (e + 1) x
      else e)"

definition expo :: "real \<Rightarrow> int" where
  "expo x = expo_from 2200 0 x"

definition ulp :: "real \<Rightarrow> real" where
  "ulp x = (if \<bar>x\<bar> < 2 powi (- 1022) then 2 powi (- 1074) else 2 powi (expo \<bar>x\<bar> - 52))"

definition fl :: "real \<Rightarrow> real" where
  "fl x = of_int (round_half_even (x / ulp x)) * ulp x"

section \<open>NVAPIService: the simulated valuation service\<close>

record PropertyData =
  address :: string
  sqft :: real
  bedrooms :: real
  bathrooms :: real
  yearBuilt :: real

text \<open>
  \<open>location.toLowerCase().replace(/\s+/g, '_')\<close> on byte strings: ASCII letters are
  lowered and every maximal run of ASCII white space becomes one underscore.
\<close>

definition toLowerCase_char :: "char \<Rightarrow> char" where
  "toLowerCase_char c =
     (let n = (of_char c :: nat) in if 65 \<le> n \<and> n \<le> 90 then char_of (n + 32) else c)"

definition is_space :: "char \<Rightarrow> bool" where
  "is_space c \<longleftrightarrow> (let n = (of_char c :: nat) in n = 32 \<or> (9 \<le> n \<and> n \<le> 13))"

function replace_spaces :: "string \<Rightarrow> string" where
  "replace_spaces [] = []"
| "replace_spaces (c # cs) =
     (if is_space c then CHR ''_'' # replace_spaces (dropWhile is_space cs)
      else c # replace_spaces cs)"
  by pat_completeness auto
termination
  by (relation "measure length") (auto simp: length_dropWhile_le le_imp_less_Suc)

definition locationPrices :: "(string \<times> real) list" where
  "locationPrices =
     [(''chicago'', 350000), (''naperville'', 425000), (''schaumburg'', 380000),
      (''evanston'', 450000), (''oak_park'', 400000)]"

text \<open>
  \<open>locationPrices[key] || 375000\<close>: every price of the table is non-zero, so the
  default is taken exactly for a key that is not in the table. The names an object
  literal inherits (\<open>constructor\<close>, \<open>__proto__\<close>) give values that are not numbers
  in JavaScript; here they count as keys that are not in the table.
\<close>

definition getBasePriceForLocation :: "string \<Rightarrow> real" where
  "getBasePriceForLocation location =
     (let key = replace_spaces (map toLowerCase_char location)
      in case map_of locationPrices key of Some p \<Rightarrow> p | None \<Rightarrow> 375000)"

definition calculateBaseValue :: "PropertyData \<Rightarrow> real" where
  "calculateBaseValue propertyData =
     (let basePrice = getBasePriceForLocation (address propertyData);
          sqftValue = sqft propertyData * 150;
          bedroomValue = bedrooms propertyData * 15000;
          bathroomValue = bathrooms propertyData * 10000;
          ageAdjustment = max 0 (1 - (2024 - yearBuilt propertyData) * 0.005)
      in (sqftValue + bedroomValue + bathroomValue) * ageAdjustment)"

text \<open>
  \<open>simulatePropertyValuation\<close> reads one draw for the confidence (draw 0) before the
  comparables and the market data are generated. The model keeps the two numeric
  fields the valuation itself consists of; \<open>propertyId\<close> (built from the clock),
  \<open>comparables\<close> and \<open>marketTrends\<close> are left out.
\<close>

record PropertyValuation =
  estimatedValue :: int
  confidence :: real

definition simulatePropertyValuation :: "PropertyData \<Rightarrow> random_source \<Rightarrow> PropertyValuation" where
  "simulatePropertyValuation propertyData rnd =
     (let baseValue = calculateBaseValue propertyData;
          confidence = rnd 0 * 0.3 + 0.7
      in \<lparr>estimatedValue = Math_round baseValue, confidence = toFixed 2 confidence\<rparr>)"

subsection \<open>Land analysis\<close>

record KeyFactor =
  factor :: string
  score :: real
  impact :: string
  description :: string

record ValueChange =
  oneYear :: real
  threeYear :: real
  fiveYear :: real

record LandAnalysisResponse =
  location :: string
  overallScore :: real
  recommendation :: string
  confidenceLevel :: real
  keyFactors :: "KeyFactor list"
  marketInsights :: "string list"
  predictedValueChange :: ValueChange

text \<open>
  \<open>generateKeyFactors\<close> draws six scores (draws \<open>k, ..., k + 5\<close>), rounds each to one
  decimal, derives the impact from the unrounded score and keeps the first four.
\<close>

definition finishKeyFactor :: "KeyFactor \<Rightarrow> KeyFactor" where
  "finishKeyFactor f =
     f\<lparr>score := toFixed 1 (score f),
       impact := (if score f \<ge> 75 then ''positive''
                  else if score f \<ge> 60 then ''neutral'' else ''negative'')\<rparr>"

definition generateKeyFactors :: "random_source \<Rightarrow> nat \<Rightarrow> KeyFactor list" where
  "generateKeyFactors rnd k =
     (let factors =
        [\<lparr>factor = ''Safety & Crime Rate'', score = rnd k * 30 + 70, impact = ''positive'',
           description = ''Low crime rate with good police response times''\<rparr>,
         \<lparr>factor = ''School Quality'', score = rnd (k + 1) * 25 + 75, impact = ''positive'',
           description = ''Highly rated schools in the district''\<rparr>,
         \<lparr>factor = ''Market Trends'', score = rnd (k + 2) * 40 + 60, impact = ''positive'',
           description = ''Steady price appreciation over past 3 years''\<rparr>,
         \<lparr>factor = ''Transportation'', score = rnd (k + 3) * 35 + 65, impact = ''positive'',
           description = ''Good public transit and highway access''\<rparr>,
         \<lparr>factor = ''Amenities'', score = rnd (k + 4) * 30 + 70, impact = ''positive'',
           description = ''Shopping, dining, and recreation nearby''\<rparr>,
         \<lparr>factor = ''Future Development'', score = rnd (k + 5) * 50 + 50, impact = ''neutral'',
           description = ''Planned infrastructure improvements''\<rparr>]
      in take 4 (map finishKeyFactor factors))"

definition generateMarketInsightsArray :: "string \<Rightarrow> string list" where
  "generateMarketInsightsArray loc =
     [loc @ '' has shown 8.2% price appreciation over the past year'',
      ''Inventory levels are 23% below historical averages, indicating strong demand'',
      ''Average days on market decreased to 18 days, down from 32 days last year'',
      ''New construction permits increased by 15%, suggesting growing neighborhood interest'',
      ''Rental yields in the area average 6.8%, attractive for investment properties'']"

text \<open>
  \<open>a || b\<close> on a value that is a string or \<open>null\<close>: \<open>null\<close> and the empty string
  are falsy.
\<close>

definition or_else :: "string option \<Rightarrow> string \<Rightarrow> string" where
  "or_else a b = (case a of None \<Rightarrow> b | Some s \<Rightarrow> if s = [] then b else s)"

text \<open>
  The score the verdict is computed from is the local constant \<open>overallScore\<close> of
  \<open>generateLandAnalysisResponse\<close>, \<open>Math.random() * 40 + 60\<close>: the product is rounded,
  and then the sum.
\<close>

definition generated_overallScore :: "random_source \<Rightarrow> real" where
  "generated_overallScore rnd = fl (fl (rnd 0 * 40) + 60)"

text \<open>
  \<open>generateLandAnalysisResponse\<close>. The result of \<open>extractLocationFromMessage\<close> (a
  regular-expression match on the message, \<open>null\<close> when nothing matches) is taken as
  the parameter \<open>locationMatch\<close>; the extracted property details are not used by the
  source. Draws: 0 overall score, 1 confidence, 2 to 7 key factors, 8 to 10 value
  changes. The constant lists \<open>riskFactors\<close>, \<open>opportunities\<close> and
  \<open>comparable_properties\<close> and the clock-based \<open>analysisId\<close> are left out. Nothing
  in the body throws on a string message, so the \<open>catch\<close> branch is never taken.
\<close>

definition generateLandAnalysisResponse :: "string option \<Rightarrow> random_source \<Rightarrow> LandAnalysisResponse" where
  "generateLandAnalysisResponse locationMatch rnd =
     (let overallScore = generated_overallScore rnd;
          confidenceLevel = rnd 1 * 0.3 + 0.7
      in \<lparr>location = or_else locationMatch ''Property Location'',
          overallScore = toFixed 1 overallScore,
          recommendation = (if overallScore \<ge> 80 then ''buy''
                            else if overallScore \<ge> 65 then ''hold'' else ''avoid''),
          confidenceLevel = toFixed 2 confidenceLevel,
          keyFactors = generateKeyFactors rnd 2,
          marketInsights = generateMarketInsightsArray (or_else locationMatch ''area''),
          predictedValueChange =
            \<lparr>oneYear = toFixed 1 (rnd 8 * 10 - 2),
             threeYear = toFixed 1 (rnd 9 * 20 + 5),
             fiveYear = toFixed 1 (rnd 10 * 35 + 15)\<rparr>\<rparr>)"

section \<open>The analysis pages\<close>

text \<open>
  Each page's \<open>onSubmit\<close> waits, builds a mock result from the form data and
  \<open>Math.random()\<close>, and stores it with the page's state setter. A failure inside the
  \<open>try\<close> block is caught and reported by a toast, leaving the stored result as it
  was. The models return \<open>Inr\<close> of the stored result, or \<open>Inl\<close> of the toast message.
  Date stamps (\<open>new Date().toISOString()\<close>) and texts built for display are left
  out of the records.
\<close>

subsection \<open>PropertyValuationPage\<close>

record PropertyValuationForm =
  form_address :: string
  property_type :: string
  beds :: real
  baths :: real
  form_sqft :: real
  year_built :: real
  lot_size :: "real option"

record FeatureAttribution =
  feature_name :: string
  attribution_value :: real
  feature_value :: real

record Explanation =
  base_value :: real
  prediction_value :: real
  top_positive_features :: "FeatureAttribution list"
  top_negative_features :: "FeatureAttribution list"

record ValuationResult =
  valuation_id :: int
  predicted_value :: real
  value_uncertainty :: real
  price_per_sqft :: real
  comparable_sales_count :: int
  days_on_market_avg :: real
  confidence_score :: real
  explanation :: Explanation

text \<open>Draws: 0 id, 1 predicted value, 2 uncertainty, 3 confidence.\<close>

definition valuation_mockResult :: "PropertyValuationForm \<Rightarrow> random_source \<Rightarrow> ValuationResult" where
  "valuation_mockResult data rnd =
     \<lparr>valuation_id = Math_floor (rnd 0 * 10000),
      predicted_value = 275000 + rnd 1 * 100000,
      value_uncertainty = 15000 + rnd 2 * 10000,
      price_per_sqft = 183.33,
      comparable_sales_count = 12,
      days_on_market_avg = 45.5,
      confidence_score = 0.85 + rnd 3 * 0.1,
      explanation =
        \<lparr>base_value = 192500,
         prediction_value = 275000,
         top_positive_features =
           [\<lparr>feature_name = ''sqft'', attribution_value = 45000, feature_value = form_sqft data\<rparr>,
            \<lparr>feature_name = ''location'', attribution_value = 25000, feature_value = 0.85\<rparr>,
            \<lparr>feature_name = ''beds'', attribution_value = 12000, feature_value = beds data\<rparr>],
         top_negative_features =
           [\<lparr>feature_name = ''age'', attribution_value = - 8000,
             feature_value = 2024 - year_built data\<rparr>]\<rparr>\<rparr>"

definition valuation_onSubmit :: "PropertyValuationForm \<Rightarrow> random_source \<Rightarrow> string + ValuationResult" where
  "valuation_onSubmit data rnd = Inr (valuation_mockResult data rnd)"

subsection \<open>BeneficiaryScoringPage\<close>

record CustomWeights =
  w_value :: real
  w_school :: real
  w_crime_inv :: real
  w_env_inv :: real
  w_employer_proximity :: real

record BeneficiaryScoringForm =
  scoring_address :: string
  custom_weights :: CustomWeights

record ScoreComponents =
  c_value :: real
  c_school :: real
  c_crime :: real
  c_env :: real
  c_employer :: real

record ComponentExplanation =
  component :: string
  raw_score :: real
  weight :: real
  weighted_contribution :: real

record ScoringResult =
  scoring_id :: int
  overall_score :: real
  value_score :: real
  school_score :: real
  safety_score :: real
  environmental_score :: real
  accessibility_score :: real
  scoring_weights :: CustomWeights
  score_components :: ScoreComponents
  model_version :: string
  explained_overall_score :: real
  component_explanations :: "ComponentExplanation list"

text \<open>
  Draws: 0 id, 1 overall score, 2 to 6 the five component scores, 7 to 11 the five
  entries of \<open>score_components\<close>. No statement of the body divides, and none inspects
  the weights. Field names the source uses in several objects carry a prefix here
  (\<open>w_\<close> for a weight, \<open>c_\<close> for a score component), and the two fields of the
  result's \<open>explanation\<close> are \<open>explained_overall_score\<close> and
  \<open>component_explanations\<close>.
\<close>

definition scoring_mockResult :: "BeneficiaryScoringForm \<Rightarrow> random_source \<Rightarrow> ScoringResult" where
  "scoring_mockResult data rnd =
     (let w = custom_weights data in
      \<lparr>scoring_id = Math_floor (rnd 0 * 10000),
       overall_score = 65 + rnd 1 * 30,
       value_score = 70 + rnd 2 * 25,
       school_score = 80 + rnd 3 * 20,
       safety_score = 60 + rnd 4 * 30,
       environmental_score = 85 + rnd 5 * 15,
       accessibility_score = 75 + rnd 6 * 20,
       scoring_weights = w,
       score_components =
         \<lparr>c_value = w_value w * (0.7 + rnd 7 * 0.3),
          c_school = w_school w * (0.8 + rnd 8 * 0.2),
          c_crime = w_crime_inv w * (0.6 + rnd 9 * 0.3),
          c_env = w_env_inv w * (0.85 + rnd 10 * 0.15),
          c_employer = w_employer_proximity w * (0.75 + rnd 11 * 0.2)\<rparr>,
       model_version = ''2.0.0'',
       explained_overall_score = 78.2,
       component_explanations =
         [\<lparr>component = ''school'', raw_score = 85, weight = w_school w,
            weighted_contribution = 6.8\<rparr>,
          \<lparr>component = ''value'', raw_score = 75, weight = w_value w,
            weighted_contribution = 6\<rparr>,
          \<lparr>component = ''safety'', raw_score = 70, weight = w_crime_inv w,
            weighted_contribution = 4.2\<rparr>,
          \<lparr>component = ''environment'', raw_score = 88, weight = w_env_inv w,
            weighted_contribution = 4.4\<rparr>,
          \<lparr>component = ''accessibility'', raw_score = 72, weight = w_employer_proximity w,
            weighted_contribution = 5.04\<rparr>]\<rparr>)"

definition scoring_onSubmit :: "BeneficiaryScoringForm \<Rightarrow> random_source \<Rightarrow> string + ScoringResult" where
  "scoring_onSubmit data rnd = Inr (scoring_mockResult data rnd)"

subsection \<open>PropertyRecommendationsPage\<close>

record UserPreferences =
  min_beds :: "real option"
  max_beds :: "real option"
  min_baths :: "real option"
  max_baths :: "real option"
  min_price :: "real option"
  max_price :: "real option"
  pref_property_type :: "string option"
  min_sqft :: "real option"
  max_sqft :: "real option"

record RecommendationForm =
  search_type :: string
  max_recommendations :: real
  recommendation_type :: string
  user_preferences :: "UserPreferences option"

record RecommendedProperty =
  rp_id :: int
  rp_predicted_value :: real
  rp_beds :: int
  rp_baths :: int
  rp_sqft :: int
  rp_year_built :: int
  rp_property_type :: string

record PropertyRecommendation =
  rec_id :: nat
  recommended_property :: RecommendedProperty
  rec_recommendation_type :: string
  similarity_score :: real
  rec_confidence_score :: real
  rank_position :: nat

text \<open>
  The callback of \<open>Array.from\<close> builds the element at \<open>index\<close> from thirteen draws,
  numbered \<open>13 * index + j\<close>: 0 property id, 1 value, 2 beds, 3 baths, 4 sqft, 5 year,
  6 to 9 the address (house number, street, city, state), 10 similarity,
  11 confidence, 12 reason. Address and reason are texts and not part of the record.
\<close>

definition mock_recommendation :: "RecommendationForm \<Rightarrow> random_source \<Rightarrow> nat \<Rightarrow> PropertyRecommendation" where
  "mock_recommendation data rnd index =
     (let r = (\<lambda>j. rnd (13 * index + j)) in
      \<lparr>rec_id = index + 1,
       recommended_property =
         \<lparr>rp_id = Math_floor (r 0 * 10000),
          rp_predicted_value = 200000 + r 1 * 500000,
          rp_beds = Math_floor (r 2 * 4) + 2,
          rp_baths = Math_floor (r 3 * 3) + 1,
          rp_sqft = Math_floor (r 4 * 2000) + 1000,
          rp_year_built = Math_floor (r 5 * 50) + 1970,
          rp_property_type = ''residential''\<rparr>,
       rec_recommendation_type = recommendation_type data,
       similarity_score = 0.6 + r 10 * 0.4,
       rec_confidence_score = 0.7 + r 11 * 0.3,
       rank_position = index + 1\<rparr>)"

text \<open>
  \<open>Array.from({ length: n }, f)\<close> turns \<open>n\<close> into a length (\<open>ToLength\<close>: truncated, at
  least 0, at most \<open>2^53 - 1\<close>) and constructs an array of that length, which throws a
  \<open>RangeError\<close> above \<open>2^32 - 1\<close>; then it calls \<open>f\<close> for the indices in order.
\<close>

definition ToLength :: "real \<Rightarrow> nat" where
  "ToLength x = (if x \<le> 0 then 0 else nat (min \<lfloor>x\<rfloor> (2 ^ 53 - 1)))"

text \<open>
  \<open>.sort((a, b) => b.similarity_score - a.similarity_score)\<close>: a stable sort by
  descending similarity, that is by ascending negated similarity.
\<close>

definition sort_by_similarity :: "PropertyRecommendation list \<Rightarrow> PropertyRecommendation list" where
  "sort_by_similarity xs = sort_key (\<lambda>a. - similarity_score a) xs"

definition recommendations_onSubmit ::
    "RecommendationForm \<Rightarrow> random_source \<Rightarrow> string + PropertyRecommendation list" where
  "recommendations_onSubmit data rnd =
     (let len = ToLength (max_recommendations data) in
      if len > 2 ^ 32 - 1
      then Inl ''Failed to get property recommendations. Please try again.''
      else Inr (sort_by_similarity (map (mock_recommendation data rnd) [0..<len])))"

text \<open>
  The hard preference filters of the form, read as the claim reads them: a bound that
  is present must hold of the candidate; an absent bound, or absent preferences,
  exclude nothing.
\<close>

definition at_least :: "real option \<Rightarrow> real \<Rightarrow> bool" where
  "at_least bound x = (case bound of None \<Rightarrow> True | Some b \<Rightarrow> b \<le> x)"

definition at_most :: "real option \<Rightarrow> real \<Rightarrow> bool" where
  "at_most bound x = (case bound of None \<Rightarrow> True | Some b \<Rightarrow> x \<le> b)"

definition satisfies_filters :: "UserPreferences \<Rightarrow> RecommendedProperty \<Rightarrow> bool" where
  "satisfies_filters p c \<longleftrightarrow>
     at_least (min_beds p) (of_int (rp_beds c)) \<and> at_most (max_beds p) (of_int (rp_beds c)) \<and>
     at_least (min_baths p) (of_int (rp_baths c)) \<and> at_most (max_baths p) (of_int (rp_baths c)) \<and>
     at_least (min_price p) (rp_predicted_value c) \<and> at_most (max_price p) (rp_predicted_value c) \<and>
     at_least (min_sqft p) (of_int (rp_sqft c)) \<and> at_most (max_sqft p) (of_int (rp_sqft c)) \<and>
     (case pref_property_type p of None \<Rightarrow> True | Some t \<Rightarrow> rp_property_type c = t)"

definition passes_hard_filters :: "RecommendationForm \<Rightarrow> PropertyRecommendation \<Rightarrow> bool" where
  "passes_hard_filters data a =
     (case user_preferences data of None \<Rightarrow> True
      | Some p \<Rightarrow> satisfies_filters p (recommended_property a))"

subsection \<open>ComprehensiveAnalysisPage\<close>

text \<open>
  The valuation and the beneficiary score of the comprehensive mock result, built
  with the formulas of the two single pages. Draws: 0 to 2 the valuation, 3 to 8
  the six scores. Recommendations, risk assessment and explanation texts follow in
  the source and are not part of this record.
\<close>

record ComprehensiveValuation =
  ca_predicted_value :: real
  ca_value_uncertainty :: real
  ca_price_per_sqft :: real
  ca_confidence_score :: real

record ComprehensiveScore =
  ca_overall_score :: real
  ca_value_score :: real
  ca_school_score :: real
  ca_safety_score :: real
  ca_environmental_score :: real
  ca_accessibility_score :: real

record ComprehensiveResult =
  property_valuation :: ComprehensiveValuation
  beneficiary_score :: ComprehensiveScore

definition comprehensive_mockResult :: "random_source \<Rightarrow> ComprehensiveResult" where
  "comprehensive_mockResult rnd =
     \<lparr>property_valuation =
        \<lparr>ca_predicted_value = 275000 + rnd 0 * 100000,
         ca_value_uncertainty = 15000 + rnd 1 * 10000,
         ca_price_per_sqft = 183.33,
         ca_confidence_score = 0.85 + rnd 2 * 0.1\<rparr>,
      beneficiary_score =
        \<lparr>ca_overall_score = 65 + rnd 3 * 30,
         ca_value_score = 70 + rnd 4 * 25,
         ca_school_score = 80 + rnd 5 * 20,
         ca_safety_score = 60 + rnd 6 * 30,
         ca_environmental_score = 85 + rnd 7 * 15,
         ca_accessibility_score = 75 + rnd 8 * 20\<rparr>\<rparr>"




section \<open>Concrete inputs\<close>

text \<open>Two random sources, and the default values of the forms.\<close>

definition draws_zero :: random_source where
  "draws_zero k = 0"

definition draws_half :: random_source where
  "draws_half k = 1 / 2"

text \<open>
  The largest double below 1, the largest double below 1/2, and a draw that gives a
  score just under 65.
\<close>

definition draws_top :: random_source where
  "draws_top k = 1 - 1 / 2 ^ 52"

definition draws_below_half :: random_source where
  "draws_below_half k = 1 / 2 - 1 / 2 ^ 52"

definition draws_near_hold :: random_source where
  "draws_near_hold k = 127 / 1024"

definition draws_quarter :: random_source where
  "draws_quarter k = 1 / 4"

definition default_valuation_form :: PropertyValuationForm where
  "default_valuation_form =
     \<lparr>form_address = ''100 Main St, Chicago, IL'', property_type = ''residential'', beds = 3,
      baths = 2, form_sqft = 1500, year_built = 2000, lot_size = Some 0.25\<rparr>"

definition larger_valuation_form :: PropertyValuationForm where
  "larger_valuation_form =
     \<lparr>form_address = ''9 Lake Ave, Evanston, IL'', property_type = ''residential'', beds = 5,
      baths = 3, form_sqft = 2400, year_built = 1985, lot_size = None\<rparr>"

definition default_weights :: CustomWeights where
  "default_weights =
     \<lparr>w_value = 8, w_school = 8, w_crime_inv = 6, w_env_inv = 5, w_employer_proximity = 7\<rparr>"

definition zero_weights :: CustomWeights where
  "zero_weights =
     \<lparr>w_value = 0, w_school = 0, w_crime_inv = 0, w_env_inv = 0, w_employer_proximity = 0\<rparr>"

definition default_scoring_form :: BeneficiaryScoringForm where
  "default_scoring_form =
     \<lparr>scoring_address = ''100 Main St, Chicago, IL'', custom_weights = default_weights\<rparr>"

definition zero_scoring_form :: BeneficiaryScoringForm where
  "zero_scoring_form =
     \<lparr>scoring_address = ''100 Main St, Chicago, IL'', custom_weights = zero_weights\<rparr>"

definition chicago_home :: PropertyData where
  "chicago_home =
     \<lparr>address = ''Chicago'', sqft = 1500, bedrooms = 3, bathrooms = 2, yearBuilt = 2000\<rparr>"

definition evanston_home :: PropertyData where
  "evanston_home =
     \<lparr>address = ''Evanston'', sqft = 1500, bedrooms = 3, bathrooms = 2, yearBuilt = 2000\<rparr>"

definition default_preferences :: UserPreferences where
  "default_preferences =
     \<lparr>min_beds = Some 2, max_beds = Some 5, min_baths = Some 1, max_baths = Some 4,
      min_price = Some 100000, max_price = Some 1000000,
      pref_property_type = Some ''residential'', min_sqft = Some 800, max_sqft = Some 4000\<rparr>"

definition default_recommendation_form :: RecommendationForm where
  "default_recommendation_form =
     \<lparr>search_type = ''location'', max_recommendations = 5, recommendation_type = ''hybrid'',
      user_preferences = Some default_preferences\<rparr>"

text \<open>The default form, asking for at least three bedrooms.\<close>

definition three_bed_form :: RecommendationForm where
  "three_bed_form =
     default_recommendation_form
       \<lparr>user_preferences := Some (default_preferences\<lparr>min_beds := Some 3\<rparr>)\<rparr>"

text \<open>
  A random source whose draw 23, the similarity of the element at index 1, is 1/2
  and whose other draws are 0.
\<close>

definition draws_second_best :: random_source where
  "draws_second_best k = (if k = 23 then 1 / 2 else 0)"

section \<open>Properties named by the claims\<close>

text \<open>
  The reconciliation the claim asks for: the base value plus the signed sum of the
  listed attributions is within the relative tolerance \<open>tol\<close> of the final value.
\<close>

definition listed_attributions :: "Explanation \<Rightarrow> real" where
  "listed_attributions e =
     sum_list (map attribution_value (top_positive_features e @ top_negative_features e))"

definition reconciles :: "real \<Rightarrow> Explanation \<Rightarrow> real \<Rightarrow> bool" where
  "reconciles tol e final \<longleftrightarrow> \<bar>base_value e + listed_attributions e - final\<bar> \<le> tol * \<bar>final\<bar>"

text \<open>
  The formula the claim names: the five component scores of a result, each times
  its weight, summed and divided by the sum of the weights.
\<close>

definition weighted_normalized_sum :: "ScoringResult \<Rightarrow> real" where
  "weighted_normalized_sum r =
     (let w = scoring_weights r in
      (value_score r * w_value w + school_score r * w_school w + safety_score r * w_crime_inv w
         + environmental_score r * w_env_inv w + accessibility_score r * w_employer_proximity w)
        / (w_value w + w_school w + w_crime_inv w + w_env_inv w + w_employer_proximity w))"

section \<open>Rounding lemmas\<close>

lemma toFixed_nonneg: "0 \<le> x \<Longrightarrow> toFixed d x = of_int \<lfloor>x * 10 ^ d + 1 / 2\<rfloor> / 10 ^ d"
  by (simp add: toFixed_def)

lemma toFixed_lower:
  assumes "0 \<le> x" and "real_of_int n / 10 ^ d \<le> x"
  shows "real_of_int n / 10 ^ d \<le> toFixed d x"
proof -
  have "real_of_int n \<le> x * 10 ^ d"
    using assms(2) by (simp add: pos_divide_le_eq)
  then have "real_of_int n \<le> x * 10 ^ d + 1 / 2" by simp
  then have "n \<le> \<lfloor>x * 10 ^ d + 1 / 2\<rfloor>" by (simp add: le_floor_iff)
  then have "real_of_int n \<le> real_of_int \<lfloor>x * 10 ^ d + 1 / 2\<rfloor>" by simp
  then show ?thesis
    using assms(1) by (simp add: toFixed_nonneg divide_right_mono)
qed

lemma toFixed_upper:
  assumes "0 \<le> x" and "x \<le> real_of_int n / 10 ^ d"
  shows "toFixed d x \<le> real_of_int n / 10 ^ d"
proof -
  have "x * 10 ^ d \<le> real_of_int n"
    using assms(2) by (simp add: pos_le_divide_eq)
  then have "x * 10 ^ d + 1 / 2 < real_of_int (n + 1)" by simp
  then have "\<lfloor>x * 10 ^ d + 1 / 2\<rfloor> < n + 1" by (rule floor_less_iff [THEN iffD2])
  then have "real_of_int \<lfloor>x * 10 ^ d + 1 / 2\<rfloor> \<le> real_of_int n" by simp
  then show ?thesis
    using assms(1) by (simp add: toFixed_nonneg divide_right_mono)
qed

subsection \<open>Rounding to doubles\<close>

lemma round_half_even_ge: "of_int m \<le> q \<Longrightarrow> m \<le> round_half_even q"
proof -
  assume "of_int m \<le> q"
  then have "m \<le> \<lfloor>q\<rfloor>" by (simp add: le_floor_iff)
  then show ?thesis by (simp add: round_half_even_def Let_def)
qed

lemma round_half_even_le: "q \<le> of_int m \<Longrightarrow> round_half_even q \<le> m"
proof (cases "q = of_int m")
  case True
  then show ?thesis by (simp add: round_half_even_def Let_def)
next
  case False
  assume "q \<le> of_int m"
  with False have "q < of_int m" by simp
  then have "\<lfloor>q\<rfloor> < m" by (simp add: floor_less_iff)
  then show ?thesis by (simp add: round_half_even_def Let_def)
qed

lemma pow2_less_cancel:
  assumes "(2::real) powi a < 2 powi b"
  shows "a < b"
proof (rule ccontr)
  assume "\<not> a < b"
  then have "b \<le> a" by simp
  then have "(2::real) powi b \<le> 2 powi a"
    by (rule power_int_increasing) simp
  with assms show False by simp
qed

lemma expo_from_char:
  "2 powi k \<le> x \<Longrightarrow> x < 2 powi (k + 1) \<Longrightarrow> \<bar>k - e\<bar> \<le> int n \<Longrightarrow> expo_from n e x = k"
proof (induction n arbitrary: e)
  case 0
  then show ?case by simp
next
  case (Suc n)
  show ?case
  proof (cases "x < 2 powi e")
    case True
    with Suc.prems(1) have "(2::real) powi k < 2 powi e" by simp
    then have "k < e" by (rule pow2_less_cancel)
    with Suc.prems(3) have "\<bar>k - (e - 1)\<bar> \<le> int n" by simp
    with Suc True show ?thesis by simp
  next
    case False
    show ?thesis
    proof (cases "2 powi (e + 1) \<le> x")
      case True
      with Suc.prems(2) have "(2::real) powi (e + 1) < 2 powi (k + 1)" by simp
      then have "e + 1 < k + 1" by (rule pow2_less_cancel)
      with Suc.prems(3) have "\<bar>k - (e + 1)\<bar> \<le> int n" by simp
      with Suc True False show ?thesis by simp
    next
      case hi: False
      from False Suc.prems(2) have "(2::real) powi e < 2 powi (k + 1)" by simp
      then have a: "e < k + 1" by (rule pow2_less_cancel)
      from hi Suc.prems(1) have "(2::real) powi k < 2 powi (e + 1)" by simp
      then have b: "k < e + 1" by (rule pow2_less_cancel)
      from a b have "e = k" by simp
      with False hi show ?thesis by simp
    qed
  qed
qed

lemma expo_char:
  "2 powi k \<le> x \<Longrightarrow> x < 2 powi (k + 1) \<Longrightarrow> \<bar>k\<bar> \<le> 2200 \<Longrightarrow> expo x = k"
  unfolding expo_def by (rule expo_from_char) simp_all

lemma powr_powi: "(2::real) powr real_of_int k = 2 powi k"
  by (simp add: powr_real_of_int power_int_def power_divide inverse_eq_divide)

lemma binade_exists:
  fixes x :: real
  assumes "0 < x"
  shows "\<exists>k. 2 powi k \<le> x \<and> x < 2 powi (k + 1)"
proof -
  let ?k = "\<lfloor>log 2 x\<rfloor>"
  have "2 powr real_of_int ?k \<le> x \<and> x < 2 powr (real_of_int ?k + 1)"
    using assms floor_log_eq_powr_iff [of x 2 ?k] by simp
  moreover have "real_of_int ?k + 1 = real_of_int (?k + 1)" by simp
  ultimately have "2 powi ?k \<le> x \<and> x < 2 powi (?k + 1)"
    by (simp only: powr_powi)
  then show ?thesis ..
qed

lemma fl_normal:
  assumes "2 powi k \<le> x" and "x < 2 powi (k + 1)" and "- 1022 \<le> k" and "k \<le> 1023"
  shows "fl x = of_int (round_half_even (x / 2 powi (k - 52))) * 2 powi (k - 52)"
proof -
  have "(2::real) powi (- 1022) \<le> 2 powi k"
    using assms(3) by (intro power_int_increasing) simp_all
  with assms(1) have n: "2 powi (- 1022) \<le> x" by simp
  then have p: "0 < x"
    by (rule less_le_trans [rotated]) simp
  have "expo x = k"
    using assms by (intro expo_char) simp_all
  with n p show ?thesis
    by (simp add: fl_def ulp_def)
qed

lemma ulp_pos: "0 < ulp x"
  by (simp add: ulp_def)

lemma fl_0: "fl 0 = 0"
  by (simp add: fl_def round_half_even_def)

lemma fl_nonneg:
  assumes "0 \<le> x"
  shows "0 \<le> fl x"
proof -
  have "of_int 0 \<le> x / ulp x"
    using assms ulp_pos [of x] by simp
  then have "0 \<le> round_half_even (x / ulp x)"
    by (rule round_half_even_ge)
  then show ?thesis
    using ulp_pos [of x] by (simp add: fl_def)
qed

lemma pow2_binade_top: "(2::real) ^ 53 * 2 powi (k - 52) = 2 powi (k + 1)"
proof -
  have "(2::real) powi (53 + (k - 52)) = 2 powi 53 * 2 powi (k - 52)"
    by (rule power_int_add) simp
  moreover have "53 + (k - 52) = k + 1" by simp
  ultimately show ?thesis by simp
qed

lemma pow2_binade_bottom: "(2::real) ^ 52 * 2 powi (k - 52) = 2 powi k"
proof -
  have "(2::real) powi (52 + (k - 52)) = 2 powi 52 * 2 powi (k - 52)"
    by (rule power_int_add) simp
  then show ?thesis by simp
qed

lemma scaled_round_le:
  assumes "0 < u" and "x \<le> of_int m * u"
  shows "of_int (round_half_even (x / u)) * u \<le> of_int m * u"
proof -
  have "x / u \<le> of_int m"
    using assms by (simp add: pos_divide_le_eq)
  then have "round_half_even (x / u) \<le> m"
    by (rule round_half_even_le)
  then have "real_of_int (round_half_even (x / u)) \<le> real_of_int m" by simp
  then show ?thesis
    using assms(1) by (simp add: mult_right_mono)
qed

lemma scaled_round_ge:
  assumes "0 < u" and "of_int m * u \<le> x"
  shows "of_int m * u \<le> of_int (round_half_even (x / u)) * u"
proof -
  have "of_int m \<le> x / u"
    using assms by (simp add: pos_le_divide_eq)
  then have "m \<le> round_half_even (x / u)"
    by (rule round_half_even_ge)
  then have "real_of_int m \<le> real_of_int (round_half_even (x / u))" by simp
  then show ?thesis
    using assms(1) by (simp add: mult_right_mono)
qed

lemma fl_upper:
  assumes "0 < x" and "x \<le> c" and "2 powi (- 1022) \<le> c"
    and rep: "\<And>k. 2 powi k \<le> x \<Longrightarrow> x < 2 powi (k + 1) \<Longrightarrow> - 1022 \<le> k \<Longrightarrow>
      k \<le> 1023 \<and> (2 powi (k + 1) \<le> c \<or> (\<exists>m. c = of_int m * 2 powi (k - 52)))"
  shows "fl x \<le> c"
proof (cases "x < 2 powi (- 1022)")
  case True
  have t: "of_int (2 ^ 52) * (2::real) powi (- 1074) = 2 powi (- 1022)"
    using pow2_binade_bottom [of "- 1022"] by simp
  have u: "ulp x = 2 powi (- 1074)"
    using True assms(1) by (simp add: ulp_def)
  have "x \<le> of_int (2 ^ 52) * (2::real) powi (- 1074)"
    using True t by simp
  then have "of_int (round_half_even (x / 2 powi (- 1074))) * 2 powi (- 1074)
      \<le> of_int (2 ^ 52) * (2::real) powi (- 1074)"
    by (intro scaled_round_le) simp_all
  then have "fl x \<le> 2 powi (- 1022)"
    using t by (simp add: fl_def u)
  with assms(3) show ?thesis by simp
next
  case False
  from binade_exists [OF assms(1)] obtain k where k: "2 powi k \<le> x" "x < 2 powi (k + 1)"
    by blast
  from False k(2) have "(2::real) powi (- 1022) < 2 powi (k + 1)" by simp
  then have "- 1022 < k + 1" by (rule pow2_less_cancel)
  then have lo: "- 1022 \<le> k" by simp
  from rep [OF k lo] have hi: "k \<le> 1023"
    and c: "2 powi (k + 1) \<le> c \<or> (\<exists>m. c = of_int m * 2 powi (k - 52))" by simp_all
  have f: "fl x = of_int (round_half_even (x / 2 powi (k - 52))) * 2 powi (k - 52)"
    using k lo hi by (rule fl_normal)
  from c show ?thesis
  proof
    assume top: "2 powi (k + 1) \<le> c"
    have "x \<le> of_int (2 ^ 53) * (2::real) powi (k - 52)"
      using k(2) pow2_binade_top [of k] by simp
    then have "fl x \<le> of_int (2 ^ 53) * (2::real) powi (k - 52)"
      unfolding f by (intro scaled_round_le) simp_all
    with top show ?thesis
      using pow2_binade_top [of k] by simp
  next
    assume "\<exists>m. c = of_int m * 2 powi (k - 52)"
    then obtain m where m: "c = of_int m * 2 powi (k - 52)" ..
    have "fl x \<le> of_int m * 2 powi (k - 52)"
      unfolding f using assms(2) m by (intro scaled_round_le) simp_all
    with m show ?thesis by simp
  qed
qed

lemma fl_lower:
  assumes "2 powi (- 1022) \<le> c" and "c \<le> x"
    and rep: "\<And>k. 2 powi k \<le> x \<Longrightarrow> x < 2 powi (k + 1) \<Longrightarrow> - 1022 \<le> k \<Longrightarrow>
      k \<le> 1023 \<and> (c \<le> 2 powi k \<or> (\<exists>m. c = of_int m * 2 powi (k - 52)))"
  shows "c \<le> fl x"
proof -
  have n: "2 powi (- 1022) \<le> x"
    using assms(1) assms(2) by simp
  then have p: "0 < x"
    by (rule less_le_trans [rotated]) simp
  from binade_exists [OF p] obtain k where k: "2 powi k \<le> x" "x < 2 powi (k + 1)"
    by blast
  from n k(2) have "(2::real) powi (- 1022) < 2 powi (k + 1)" by simp
  then have "- 1022 < k + 1" by (rule pow2_less_cancel)
  then have lo: "- 1022 \<le> k" by simp
  from rep [OF k lo] have hi: "k \<le> 1023"
    and c: "c \<le> 2 powi k \<or> (\<exists>m. c = of_int m * 2 powi (k - 52))" by simp_all
  have f: "fl x = of_int (round_half_even (x / 2 powi (k - 52))) * 2 powi (k - 52)"
    using k lo hi by (rule fl_normal)
  from c show ?thesis
  proof
    assume bot: "c \<le> 2 powi k"
    have "of_int (2 ^ 52) * (2::real) powi (k - 52) \<le> x"
      using k(1) pow2_binade_bottom [of k] by simp
    then have "of_int (2 ^ 52) * (2::real) powi (k - 52) \<le> fl x"
      unfolding f by (intro scaled_round_ge) simp_all
    with bot show ?thesis
      using pow2_binade_bottom [of k] by simp
  next
    assume "\<exists>m. c = of_int m * 2 powi (k - 52)"
    then obtain m where m: "c = of_int m * 2 powi (k - 52)" ..
    have "of_int m * 2 powi (k - 52) \<le> fl x"
      unfolding f using assms(2) m by (intro scaled_round_ge) simp_all
    with m show ?thesis by simp
  qed
qed

lemma fl_le_double:
  assumes "0 \<le> x" and "x \<le> c"
    and "2 powi K \<le> c" and "c < 2 powi (K + 1)" and "- 1022 \<le> K" and "K \<le> 1023"
    and "c = of_int m * 2 powi (K - 52)"
  shows "fl x \<le> c"
proof (cases "x = 0")
  case True
  have "(0::real) < 2 powi K" by simp
  with assms(3) have "0 \<le> c" by linarith
  with True show ?thesis by (simp add: fl_0)
next
  case False
  with assms(1) have p: "0 < x" by simp
  have "(2::real) powi (- 1022) \<le> 2 powi K"
    using assms(5) by (intro power_int_increasing) simp_all
  with assms(3) have n: "2 powi (- 1022) \<le> c" by simp
  show ?thesis
  proof (rule fl_upper [OF p assms(2) n])
    fix k
    assume k: "2 powi k \<le> x" "x < 2 powi (k + 1)" "- 1022 \<le> k"
    from k(1) assms(2) assms(4) have "(2::real) powi k < 2 powi (K + 1)" by simp
    then have "k < K + 1" by (rule pow2_less_cancel)
    then have kK: "k \<le> K" by simp
    show "k \<le> 1023 \<and> (2 powi (k + 1) \<le> c \<or> (\<exists>m. c = of_int m * 2 powi (k - 52)))"
    proof (cases "k = K")
      case True
      with assms(6) assms(7) show ?thesis by blast
    next
      case False
      with kK have "k + 1 \<le> K" by simp
      then have "(2::real) powi (k + 1) \<le> 2 powi K"
        by (rule power_int_increasing) simp
      with assms(3) assms(6) kK show ?thesis by simp
    qed
  qed
qed

lemma fl_ge_double:
  assumes "c \<le> x" and "x < 2 powi 1024"
    and "2 powi K \<le> c" and "c < 2 powi (K + 1)" and "- 1022 \<le> K"
    and "c = of_int m * 2 powi (K - 52)"
  shows "c \<le> fl x"
proof -
  have "(2::real) powi (- 1022) \<le> 2 powi K"
    using assms(5) by (intro power_int_increasing) simp_all
  with assms(3) have n: "2 powi (- 1022) \<le> c" by simp
  show ?thesis
  proof (rule fl_lower [OF n assms(1)])
    fix k
    assume k: "2 powi k \<le> x" "x < 2 powi (k + 1)" "- 1022 \<le> k"
    from k(1) assms(2) have "(2::real) powi k < 2 powi 1024" by simp
    then have "k < 1024" by (rule pow2_less_cancel)
    then have hi: "k \<le> 1023" by simp
    from assms(3) assms(1) k(2) have "(2::real) powi K < 2 powi (k + 1)" by simp
    then have "K < k + 1" by (rule pow2_less_cancel)
    then have Kk: "K \<le> k" by simp
    show "k \<le> 1023 \<and> (c \<le> 2 powi k \<or> (\<exists>m. c = of_int m * 2 powi (k - 52)))"
    proof (cases "k = K")
      case True
      with hi assms(6) show ?thesis by blast
    next
      case False
      with Kk have "K + 1 \<le> k" by simp
      then have "(2::real) powi (K + 1) \<le> 2 powi k"
        by (rule power_int_increasing) simp
      with assms(4) hi show ?thesis by simp
    qed
  qed
qed

lemma fl_le_40: "0 \<le> x \<Longrightarrow> x \<le> 40 \<Longrightarrow> fl x \<le> 40"
  by (rule fl_le_double [where K = 5 and m = "40 * 2 ^ 47"]) simp_all

lemma fl_le_100: "0 \<le> x \<Longrightarrow> x \<le> 100 \<Longrightarrow> fl x \<le> 100"
  by (rule fl_le_double [where K = 6 and m = "100 * 2 ^ 46"]) simp_all

lemma fl_ge_60: "60 \<le> x \<Longrightarrow> x \<le> 100 \<Longrightarrow> 60 \<le> fl x"
  by (rule fl_ge_double [where K = 5 and m = "60 * 2 ^ 47"]) simp_all

lemma generated_overallScore_range:
  assumes "0 \<le> rnd 0" and "rnd 0 < 1"
  shows "60 \<le> generated_overallScore rnd \<and> generated_overallScore rnd \<le> 100"
proof -
  have "0 \<le> rnd 0 * 40" "rnd 0 * 40 \<le> 40"
    using assms by simp_all
  then have p: "0 \<le> fl (rnd 0 * 40)" "fl (rnd 0 * 40) \<le> 40"
    by (simp_all add: fl_nonneg fl_le_40)
  then have "60 \<le> fl (rnd 0 * 40) + 60" "fl (rnd 0 * 40) + 60 \<le> 100"
    by simp_all
  then show ?thesis
    by (simp add: generated_overallScore_def fl_ge_60 fl_le_100)
qed

lemma fl_top_product: "fl ((1 - 1 / 2 ^ 52) * 40) = 40 - 1 / 2 ^ 47"
  by (subst fl_normal [where k = 5]) (simp_all add: round_half_even_def)

lemma fl_top_sum: "fl (40 - 1 / 2 ^ 47 + 60) = 100"
  by (subst fl_normal [where k = 6]) (simp_all add: round_half_even_def)

lemma fl_exact: "fl 0 = 0" "fl 20 = 20" "fl 10 = 10" "fl 60 = 60" "fl 70 = 70" "fl 80 = 80"
  by (simp add: fl_0, (subst fl_normal [where k = 4], simp_all add: round_half_even_def)[1],
      (subst fl_normal [where k = 3], simp_all add: round_half_even_def)[1],
      (subst fl_normal [where k = 5], simp_all add: round_half_even_def)[1],
      (subst fl_normal [where k = 6], simp_all add: round_half_even_def)[1],
      (subst fl_normal [where k = 6], simp_all add: round_half_even_def)[1])

section \<open>The base value and the land analysis of the valuation service\<close>

text \<open>
  C9. \<open>calculateBaseValue\<close> does not depend on the location: two property records
  that agree on sqft, bedrooms, bathrooms and yearBuilt get equal base values,
  whatever their addresses. The base price of the location is looked up and then
  not used.
\<close>

theorem calculateBaseValue_ignores_address:
  assumes "sqft a = sqft b" and "bedrooms a = bedrooms b"
    and "bathrooms a = bathrooms b" and "yearBuilt a = yearBuilt b"
  shows "calculateBaseValue a = calculateBaseValue b"
  using assms by (simp add: calculateBaseValue_def Let_def)

theorem calculateBaseValue_ignores_address_witness:
  "address chicago_home \<noteq> address evanston_home
   \<and> sqft chicago_home = sqft evanston_home
   \<and> bedrooms chicago_home = bedrooms evanston_home
   \<and> bathrooms chicago_home = bathrooms evanston_home
   \<and> yearBuilt chicago_home = yearBuilt evanston_home
   \<and> calculateBaseValue chicago_home = calculateBaseValue evanston_home"
  using calculateBaseValue_ignores_address [of chicago_home evanston_home]
  by (simp add: chicago_home_def evanston_home_def)

text \<open>The two addresses of the witness do have different base prices.\<close>

lemma base_prices_differ:
  "getBasePriceForLocation (address chicago_home) = 350000"
  "getBasePriceForLocation (address evanston_home) = 450000"
  by code_simp+

lemma calculateBaseValue_chicago: "calculateBaseValue chicago_home = 255200"
  by (simp add: calculateBaseValue_def chicago_home_def Let_def)




text \<open>Each of the three verdicts occurs.\<close>

lemma generated_overallScore_values:
  "generated_overallScore draws_zero = 60"
  "generated_overallScore draws_half = 80"
  "generated_overallScore draws_quarter = 70"
  by (simp_all add: generated_overallScore_def draws_zero_def draws_half_def draws_quarter_def
      fl_exact)

lemma land_verdicts_occur:
  "recommendation (generateLandAnalysisResponse None draws_zero) = ''avoid''"
  "recommendation (generateLandAnalysisResponse None draws_half) = ''buy''"
  "recommendation (generateLandAnalysisResponse None draws_quarter) = ''hold''"
  by (simp_all add: generateLandAnalysisResponse_def generated_overallScore_values Let_def)

text \<open>
  C10, as the claim states it, fails at the upper end of the range: for the draw
  \<open>1 - 2^-52\<close>, the largest double below 1, the product rounds to \<open>40 - 2^-47\<close> and
  the sum to 100, so the generated score is 100 and not below it.
\<close>

theorem land_score_reaches_100:
  "valid_draw (draws_top 0)
   \<and> generated_overallScore draws_top = 100
   \<and> \<not> generated_overallScore draws_top < 100
   \<and> recommendation (generateLandAnalysisResponse None draws_top) = ''buy''"
proof -
  have "generated_overallScore draws_top = 100"
    by (simp only: generated_overallScore_def draws_top_def fl_top_product fl_top_sum)
  moreover have "valid_draw (draws_top 0)"
    by (simp add: valid_draw_def draws_top_def)
  ultimately show ?thesis
    by (simp add: generateLandAnalysisResponse_def Let_def)
qed

text \<open>
  C10, amended. The verdict is a threshold function of the generated overall score:
  buy exactly from 80 on, hold exactly from 65 up to 80, avoid exactly below 65. The
  generated score lies in \<open>[60, 100]\<close>, both ends included, so avoid is only given
  for scores in \<open>[60, 65)\<close>.
\<close>

theorem land_verdict_thresholds:
  assumes "valid_draw (rnd 0)"
  shows "60 \<le> generated_overallScore rnd \<and> generated_overallScore rnd \<le> 100
    \<and> (recommendation (generateLandAnalysisResponse locationMatch rnd) = ''buy''
         \<longleftrightarrow> 80 \<le> generated_overallScore rnd)
    \<and> (recommendation (generateLandAnalysisResponse locationMatch rnd) = ''hold''
         \<longleftrightarrow> 65 \<le> generated_overallScore rnd \<and> generated_overallScore rnd < 80)
    \<and> (recommendation (generateLandAnalysisResponse locationMatch rnd) = ''avoid''
         \<longleftrightarrow> 60 \<le> generated_overallScore rnd \<and> generated_overallScore rnd < 65)"
proof -
  have "60 \<le> generated_overallScore rnd \<and> generated_overallScore rnd \<le> 100"
    using assms by (intro generated_overallScore_range) (simp_all add: valid_draw_def)
  then show ?thesis
    by (auto simp add: generateLandAnalysisResponse_def Let_def)
qed

theorem land_verdict_thresholds_witness:
  "valid_draw (draws_zero 0)
   \<and> generated_overallScore draws_zero = 60
   \<and> recommendation (generateLandAnalysisResponse None draws_zero) = ''avoid''"
  using land_verdict_thresholds [of draws_zero None]
  by (simp add: valid_draw_def draws_zero_def generated_overallScore_values)

text \<open>
  Rounding also moves a score onto a threshold: for the largest double below 1/2
  the product rounds to \<open>20 - 2^-47\<close> and the sum to 80, and the verdict is buy.
\<close>

lemma land_score_rounds_to_80:
  "generated_overallScore draws_below_half = 80"
  "recommendation (generateLandAnalysisResponse None draws_below_half) = ''buy''"
proof -
  have a: "fl ((1 / 2 - 1 / 2 ^ 52) * 40) = 20 - 1 / 2 ^ 47"
    by (subst fl_normal [where k = 4]) (simp_all add: round_half_even_def)
  have b: "fl (20 - 1 / 2 ^ 47 + 60) = 80"
    by (subst fl_normal [where k = 6]) (simp_all add: round_half_even_def)
  show s: "generated_overallScore draws_below_half = 80"
    by (simp only: generated_overallScore_def draws_below_half_def a b)
  show "recommendation (generateLandAnalysisResponse None draws_below_half) = ''buy''"
    by (simp add: generateLandAnalysisResponse_def s Let_def)
qed

text \<open>
  The \<open>overallScore\<close> field of the response is the generated score rounded to one
  decimal. It lies in \<open>[60, 100]\<close>, and a generated score just below a threshold is
  reported as the threshold itself.
\<close>

lemma reported_overallScore:
  "overallScore (generateLandAnalysisResponse locationMatch rnd) = toFixed 1 (generated_overallScore rnd)"
  by (simp add: generateLandAnalysisResponse_def Let_def)

lemma reported_overallScore_range:
  assumes "valid_draw (rnd 0)"
  shows "60 \<le> overallScore (generateLandAnalysisResponse locationMatch rnd)
    \<and> overallScore (generateLandAnalysisResponse locationMatch rnd) \<le> 100"
proof -
  let ?s = "generated_overallScore rnd"
  have "60 \<le> ?s \<and> ?s \<le> 100"
    using assms by (intro generated_overallScore_range) (simp_all add: valid_draw_def)
  then have s: "0 \<le> ?s" "real_of_int 600 / 10 ^ 1 \<le> ?s" "?s \<le> real_of_int 1000 / 10 ^ 1"
    by simp_all
  have "real_of_int 600 / 10 ^ 1 \<le> toFixed 1 ?s"
    using s(1) s(2) by (rule toFixed_lower)
  moreover have "toFixed 1 ?s \<le> real_of_int 1000 / 10 ^ 1"
    using s(1) s(3) by (rule toFixed_upper)
  ultimately show ?thesis
    by (simp add: reported_overallScore)
qed

lemma reported_overallScore_rounds_up:
  "generated_overallScore draws_near_hold = 8315 / 128"
  "overallScore (generateLandAnalysisResponse None draws_near_hold) = 65"
  "recommendation (generateLandAnalysisResponse None draws_near_hold) = ''avoid''"
proof -
  have a: "fl (635 / 128) = 635 / 128"
    by (subst fl_normal [where k = 2]) (simp_all add: round_half_even_def)
  have b: "fl (8315 / 128) = 8315 / 128"
    by (subst fl_normal [where k = 6]) (simp_all add: round_half_even_def)
  show s: "generated_overallScore draws_near_hold = 8315 / 128"
    by (simp add: generated_overallScore_def draws_near_hold_def a b)
  show "overallScore (generateLandAnalysisResponse None draws_near_hold) = 65"
    by (simp add: reported_overallScore s toFixed_def)
  show "recommendation (generateLandAnalysisResponse None draws_near_hold) = ''avoid''"
    by (simp add: generateLandAnalysisResponse_def s Let_def)
qed

section \<open>Property valuation\<close>

lemma simulated_confidence_range:
  assumes "valid_draw (rnd 0)"
  shows "0.7 \<le> confidence (simulatePropertyValuation p rnd)
    \<and> confidence (simulatePropertyValuation p rnd) \<le> 1"
proof -
  let ?c = "rnd 0 * 0.3 + 0.7"
  have c: "0 \<le> ?c" "real_of_int 70 / 10 ^ 2 \<le> ?c" "?c \<le> real_of_int 100 / 10 ^ 2"
    using assms by (simp_all add: valid_draw_def)
  have "real_of_int 70 / 10 ^ 2 \<le> toFixed 2 ?c"
    using c(1) c(2) by (rule toFixed_lower)
  moreover have "toFixed 2 ?c \<le> real_of_int 100 / 10 ^ 2"
    using c(1) c(3) by (rule toFixed_upper)
  ultimately show ?thesis
    by (simp add: simulatePropertyValuation_def Let_def)
qed

text \<open>
  C7. Whatever the valuation input, the uncertainty that is returned is not negative
  and the confidence that is returned lies in \<open>[0, 1]\<close>: on the valuation page, in
  the valuation part of the comprehensive page, and for the confidence of the
  simulated valuation service (which returns no uncertainty).
\<close>

theorem valuation_uncertainty_and_confidence_ranges:
  assumes "\<And>k. valid_draw (rnd k)"
  shows "(\<exists>r. valuation_onSubmit data rnd = Inr r
        \<and> 0 \<le> value_uncertainty r \<and> 0 \<le> confidence_score r \<and> confidence_score r \<le> 1)
    \<and> 0 \<le> ca_value_uncertainty (property_valuation (comprehensive_mockResult rnd))
    \<and> 0 \<le> ca_confidence_score (property_valuation (comprehensive_mockResult rnd))
    \<and> ca_confidence_score (property_valuation (comprehensive_mockResult rnd)) \<le> 1
    \<and> 0 \<le> confidence (simulatePropertyValuation p rnd)
    \<and> confidence (simulatePropertyValuation p rnd) \<le> 1"
proof -
  have d: "0 \<le> rnd 0" "0 \<le> rnd 1" "rnd 1 < 1" "0 \<le> rnd 2" "rnd 2 < 1" "0 \<le> rnd 3" "rnd 3 < 1"
    using assms by (simp_all add: valid_draw_def)
  have page: "0 \<le> value_uncertainty (valuation_mockResult data rnd)
      \<and> 0 \<le> confidence_score (valuation_mockResult data rnd)
      \<and> confidence_score (valuation_mockResult data rnd) \<le> 1"
    using d by (simp add: valuation_mockResult_def)
  have comp: "0 \<le> ca_value_uncertainty (property_valuation (comprehensive_mockResult rnd))
      \<and> 0 \<le> ca_confidence_score (property_valuation (comprehensive_mockResult rnd))
      \<and> ca_confidence_score (property_valuation (comprehensive_mockResult rnd)) \<le> 1"
    using d by (simp add: comprehensive_mockResult_def)
  have svc: "0 \<le> confidence (simulatePropertyValuation p rnd)
      \<and> confidence (simulatePropertyValuation p rnd) \<le> 1"
    using simulated_confidence_range [of rnd p] assms by simp
  from page comp svc show ?thesis
    by (simp add: valuation_onSubmit_def)
qed

theorem valuation_uncertainty_and_confidence_ranges_witness:
  "value_uncertainty (valuation_mockResult default_valuation_form draws_half) = 20000
   \<and> confidence_score (valuation_mockResult default_valuation_form draws_half) = 0.9
   \<and> 0 \<le> confidence (simulatePropertyValuation chicago_home draws_half)
   \<and> confidence (simulatePropertyValuation chicago_home draws_half) \<le> 1"
proof -
  have v: "\<And>k. valid_draw (draws_half k)"
    by (simp add: valid_draw_def draws_half_def)
  have "0 \<le> confidence (simulatePropertyValuation chicago_home draws_half)
      \<and> confidence (simulatePropertyValuation chicago_home draws_half) \<le> 1"
    using valuation_uncertainty_and_confidence_ranges
      [of draws_half default_valuation_form chicago_home, OF v]
    by simp
  then show ?thesis
    by (simp add: valuation_mockResult_def draws_half_def)
qed

text \<open>
  C1, as the claim states it, fails: with the same form data, a call that draws 0
  and a call that draws 1/2 return different values in all three fields.
\<close>

theorem valuation_not_deterministic:
  "predicted_value (valuation_mockResult default_valuation_form draws_zero)
     \<noteq> predicted_value (valuation_mockResult default_valuation_form draws_half)
   \<and> value_uncertainty (valuation_mockResult default_valuation_form draws_zero)
     \<noteq> value_uncertainty (valuation_mockResult default_valuation_form draws_half)
   \<and> confidence_score (valuation_mockResult default_valuation_form draws_zero)
     \<noteq> confidence_score (valuation_mockResult default_valuation_form draws_half)"
  by (simp add: valuation_mockResult_def draws_zero_def draws_half_def)

text \<open>
  C1, amended. The three fields are computed from the draws of the call and not
  from the form data: two calls that read the same draws 1, 2 and 3 return the same
  predicted value, uncertainty and confidence, whatever their inputs, and calls
  that read different draws can differ, as above. The one valuation output that is
  fixed by the input is the \<open>estimatedValue\<close> of the simulated service, which is
  the same for every random source.
\<close>

theorem valuation_outputs_follow_draws:
  "(rnd 1 = rnd' 1 \<and> rnd 2 = rnd' 2 \<and> rnd 3 = rnd' 3
      \<longrightarrow> predicted_value (valuation_mockResult data rnd)
            = predicted_value (valuation_mockResult data' rnd')
        \<and> value_uncertainty (valuation_mockResult data rnd)
            = value_uncertainty (valuation_mockResult data' rnd')
        \<and> confidence_score (valuation_mockResult data rnd)
            = confidence_score (valuation_mockResult data' rnd'))
   \<and> estimatedValue (simulatePropertyValuation p rnd) = estimatedValue (simulatePropertyValuation p rnd')"
  by (simp add: valuation_mockResult_def simulatePropertyValuation_def Let_def)

theorem valuation_outputs_follow_draws_witness:
  "predicted_value (valuation_mockResult default_valuation_form draws_half)
     = predicted_value (valuation_mockResult larger_valuation_form draws_half)
   \<and> value_uncertainty (valuation_mockResult default_valuation_form draws_half)
     = value_uncertainty (valuation_mockResult larger_valuation_form draws_half)
   \<and> confidence_score (valuation_mockResult default_valuation_form draws_half)
     = confidence_score (valuation_mockResult larger_valuation_form draws_half)
   \<and> estimatedValue (simulatePropertyValuation chicago_home draws_zero)
     = estimatedValue (simulatePropertyValuation chicago_home draws_half)"
  using valuation_outputs_follow_draws
    [of draws_half draws_half default_valuation_form larger_valuation_form chicago_home]
    valuation_outputs_follow_draws
    [of draws_zero draws_half default_valuation_form larger_valuation_form chicago_home]
  by simp

section \<open>The explanation of a valuation\<close>

text \<open>
  C3, as the claim states it, fails: for the default form and the draws 0 the listed
  attributions do not reconcile within 1e-3, neither with the predicted value of the
  result nor with the prediction value the explanation itself carries.
\<close>

theorem explanation_does_not_reconcile:
  "\<not> reconciles (1 / 1000) (explanation (valuation_mockResult default_valuation_form draws_zero))
        (predicted_value (valuation_mockResult default_valuation_form draws_zero))
   \<and> \<not> reconciles (1 / 1000) (explanation (valuation_mockResult default_valuation_form draws_zero))
        (prediction_value (explanation (valuation_mockResult default_valuation_form draws_zero)))"
  by (simp add: reconciles_def listed_attributions_def valuation_mockResult_def draws_zero_def)

text \<open>
  C3, amended. In every explanation the base value and the four listed attributions
  add up to 266500, which is 8500 below the prediction value 275000 of the
  explanation, and at least 8500 and at most 108500 below the predicted value of
  the result.
\<close>

theorem explanation_listed_sum:
  assumes "valid_draw (rnd 1)"
  shows "base_value (explanation (valuation_mockResult data rnd))
        + listed_attributions (explanation (valuation_mockResult data rnd)) = 266500
    \<and> prediction_value (explanation (valuation_mockResult data rnd)) = 266500 + 8500
    \<and> 266500 + 8500 \<le> predicted_value (valuation_mockResult data rnd)
    \<and> predicted_value (valuation_mockResult data rnd) \<le> 266500 + 108500"
  using assms
  by (simp add: listed_attributions_def valuation_mockResult_def valid_draw_def)

theorem explanation_listed_sum_witness:
  "valid_draw (draws_half 1)
   \<and> base_value (explanation (valuation_mockResult default_valuation_form draws_half))
        + listed_attributions (explanation (valuation_mockResult default_valuation_form draws_half))
      = 266500
   \<and> predicted_value (valuation_mockResult default_valuation_form draws_half) = 325000"
proof -
  have v: "valid_draw (draws_half 1)"
    by (simp add: valid_draw_def draws_half_def)
  have "predicted_value (valuation_mockResult default_valuation_form draws_half) = 325000"
    by (simp add: valuation_mockResult_def draws_half_def)
  then show ?thesis
    using v explanation_listed_sum [of draws_half default_valuation_form, OF v] by simp
qed

section \<open>Beneficiary scoring\<close>

text \<open>
  C2, as the claim states it, fails: with the default weights, all positive, and the
  draws 0 the overall score is 65 while the weighted normalized sum of the five
  component scores is 2510 / 34.
\<close>

theorem overall_score_is_not_weighted_sum:
  "0 < w_value (custom_weights default_scoring_form)
   \<and> overall_score (scoring_mockResult default_scoring_form draws_zero) = 65
   \<and> weighted_normalized_sum (scoring_mockResult default_scoring_form draws_zero) = 2510 / 34
   \<and> overall_score (scoring_mockResult default_scoring_form draws_zero)
       \<noteq> weighted_normalized_sum (scoring_mockResult default_scoring_form draws_zero)"
  by (simp add: scoring_mockResult_def weighted_normalized_sum_def default_scoring_form_def
      default_weights_def draws_zero_def Let_def)

text \<open>
  C2, amended. For every weight vector the scoring operation returns a result whose
  overall score is \<open>65 + 30 r\<close> for the second draw \<open>r\<close> of the call. It lies in
  \<open>[65, 95]\<close>, inside \<open>[0, 100]\<close>, and it is computed from that draw alone: calls that
  agree on it return the same overall score, whatever their weights and whatever the
  draws of their component scores.
\<close>

theorem overall_score_range:
  assumes "valid_draw (rnd 1)" and "valid_draw (rnd 3)"
  shows "(\<exists>r. scoring_onSubmit data rnd = Inr r \<and> overall_score r = 65 + rnd 1 * 30
        \<and> 65 \<le> overall_score r \<and> overall_score r \<le> 95
        \<and> 0 \<le> overall_score r \<and> overall_score r \<le> 100)
    \<and> (rnd' 1 = rnd 1
        \<longrightarrow> overall_score (scoring_mockResult data' rnd') = overall_score (scoring_mockResult data rnd))
    \<and> 65 \<le> ca_overall_score (beneficiary_score (comprehensive_mockResult rnd))
    \<and> ca_overall_score (beneficiary_score (comprehensive_mockResult rnd)) \<le> 95"
  using assms
  by (simp add: scoring_onSubmit_def scoring_mockResult_def comprehensive_mockResult_def
      valid_draw_def Let_def)

theorem overall_score_range_witness:
  "valid_draw (draws_half 1) \<and> valid_draw (draws_half 3)
   \<and> overall_score (scoring_mockResult default_scoring_form draws_half) = 80
   \<and> overall_score (scoring_mockResult zero_scoring_form draws_half) = 80"
proof -
  have v: "valid_draw (draws_half 1)" "valid_draw (draws_half 3)"
    by (simp_all add: valid_draw_def draws_half_def)
  have "overall_score (scoring_mockResult default_scoring_form draws_half) = 80"
    by (simp add: scoring_mockResult_def draws_half_def Let_def)
  then show ?thesis
    using v overall_score_range [of draws_half default_scoring_form draws_half zero_scoring_form, OF v]
    by simp
qed

text \<open>
  C6, as the claim states it, fails: with all five weights zero the operation does
  not fail, it returns a result.
\<close>

theorem zero_weights_not_rejected:
  "\<not> isl (scoring_onSubmit zero_scoring_form draws_zero)
   \<and> overall_score (projr (scoring_onSubmit zero_scoring_form draws_zero)) = 65"
  by (simp add: scoring_onSubmit_def scoring_mockResult_def draws_zero_def Let_def)

text \<open>
  C6, amended. If all five weights are zero the operation returns a normal result:
  its overall score is \<open>65 + 30 r\<close> as for any other weights, its weights are the
  zero weights and its five score components are all 0. No division takes place.
\<close>

theorem zero_weights_give_normal_result:
  assumes "custom_weights data = zero_weights"
  shows "\<exists>r. scoring_onSubmit data rnd = Inr r
      \<and> overall_score r = 65 + rnd 1 * 30
      \<and> scoring_weights r = zero_weights
      \<and> score_components r = \<lparr>c_value = 0, c_school = 0, c_crime = 0, c_env = 0, c_employer = 0\<rparr>"
  using assms
  by (simp add: scoring_onSubmit_def scoring_mockResult_def zero_weights_def Let_def)

theorem zero_weights_give_normal_result_witness:
  "custom_weights zero_scoring_form = zero_weights
   \<and> (\<exists>r. scoring_onSubmit zero_scoring_form draws_half = Inr r \<and> overall_score r = 80)"
proof -
  have z: "custom_weights zero_scoring_form = zero_weights"
    by (simp add: zero_scoring_form_def)
  show ?thesis
    using z zero_weights_give_normal_result [of zero_scoring_form draws_half, OF z]
    by (auto simp add: draws_half_def)
qed

section \<open>Property recommendations\<close>

lemma upt_5: "[0..<5] = [0, 1, 2, 3, 4]"
  by (simp add: upt_conv_Cons)

lemma ToLength_5: "ToLength 5 = 5"
  by (simp add: ToLength_def)

lemma mock_recommendation_ranges:
  assumes "\<And>k. valid_draw (rnd k)"
  shows "2 \<le> rp_beds (recommended_property (mock_recommendation data rnd i))
    \<and> rp_beds (recommended_property (mock_recommendation data rnd i)) \<le> 5
    \<and> 1 \<le> rp_baths (recommended_property (mock_recommendation data rnd i))
    \<and> rp_baths (recommended_property (mock_recommendation data rnd i)) \<le> 3
    \<and> 1000 \<le> rp_sqft (recommended_property (mock_recommendation data rnd i))
    \<and> rp_sqft (recommended_property (mock_recommendation data rnd i)) \<le> 2999
    \<and> 200000 \<le> rp_predicted_value (recommended_property (mock_recommendation data rnd i))
    \<and> rp_predicted_value (recommended_property (mock_recommendation data rnd i)) \<le> 700000
    \<and> rp_property_type (recommended_property (mock_recommendation data rnd i)) = ''residential''"
proof -
  have d: "\<And>k. 0 \<le> rnd k" "\<And>k. rnd k < 1"
    using assms by (simp_all add: valid_draw_def)
  have "rnd (13 * i + 1) \<le> 1"
    using d(2) [of "13 * i + 1"] by simp
  then show ?thesis
    using d by (simp add: mock_recommendation_def Math_floor_def Let_def floor_le_iff)
qed

lemma ToLength_le: "real (ToLength x) \<le> max 0 x"
proof (cases "x \<le> 0")
  case True
  then show ?thesis by (simp add: ToLength_def)
next
  case False
  then have f: "0 \<le> \<lfloor>x\<rfloor>" by simp
  have "real (nat (min \<lfloor>x\<rfloor> (2 ^ 53 - 1))) = real_of_int (min \<lfloor>x\<rfloor> (2 ^ 53 - 1))"
    using f by simp
  also have "\<dots> \<le> real_of_int \<lfloor>x\<rfloor>" by simp
  also have "\<dots> \<le> x" by simp
  finally show ?thesis
    using False by (simp add: ToLength_def)
qed

lemma ToLength_on_form_range:
  assumes "x \<le> 50"
  shows "\<not> ToLength x > 2 ^ 32 - 1"
proof -
  have "real (ToLength x) \<le> max 0 x" by (rule ToLength_le)
  also have "\<dots> \<le> 50" using assms by simp
  finally have "ToLength x \<le> 50" by simp
  then show ?thesis by simp
qed

text \<open>A length of \<open>2^32\<close> or more makes \<open>Array.from\<close> throw, and the page reports a failure.\<close>

lemma recommendations_length_too_large:
  "recommendations_onSubmit (default_recommendation_form\<lparr>max_recommendations := 4294967296\<rparr>) rnd
    = Inl ''Failed to get property recommendations. Please try again.''"
  by (simp add: recommendations_onSubmit_def ToLength_def default_recommendation_form_def)

text \<open>
  C4. The results are to carry rank positions that start at 1 and increase in result
  order, next to similarities that do not increase. The page numbers the elements
  before it sorts them, so the rank positions come out in the order of generation:
  for the default form with five results, and draws that make the second generated
  element the most similar one, the ranks in result order are 2, 1, 3, 4, 5.
\<close>

theorem rank_positions_out_of_order:
  "\<not> isl (recommendations_onSubmit default_recommendation_form draws_second_best)
   \<and> map rank_position (projr (recommendations_onSubmit default_recommendation_form draws_second_best))
       = [2, 1, 3, 4, 5]
   \<and> map similarity_score (projr (recommendations_onSubmit default_recommendation_form draws_second_best))
       = [0.8, 0.6, 0.6, 0.6, 0.6]"
  by (simp add: recommendations_onSubmit_def default_recommendation_form_def draws_second_best_def
      ToLength_5 upt_5 sort_by_similarity_def mock_recommendation_def Math_floor_def)

text \<open>
  What the sort does establish: similarities do not increase along the result, and
  elements of equal similarity keep the order in which they were generated, which
  is the order of their ids.
\<close>

lemma sorted_result:
  assumes "recommendations_onSubmit data rnd = Inr rs"
  shows "sorted (map (\<lambda>a. - similarity_score a) rs)"
  using assms
  by (auto simp add: recommendations_onSubmit_def sort_by_similarity_def Let_def split: if_splits)

lemma stable_result:
  assumes "recommendations_onSubmit data rnd = Inr rs"
  shows "filter (\<lambda>a. similarity_score a = v) rs
    = filter (\<lambda>a. similarity_score a = v)
        (map (mock_recommendation data rnd) [0..<ToLength (max_recommendations data)])"
proof -
  have "filter (\<lambda>a. - similarity_score a = - v) (sort_key (\<lambda>a. - similarity_score a) xs)
      = filter (\<lambda>a. - similarity_score a = - v) xs" for xs :: "PropertyRecommendation list"
    by (rule sort_key_stable)
  then show ?thesis
    using assms
    by (auto simp add: recommendations_onSubmit_def sort_by_similarity_def Let_def split: if_splits)
qed

text \<open>
  C5, as the claim states it, fails: the form asks for at least three bedrooms, and
  with the draws 0 each of the five returned candidates has two.
\<close>

theorem returned_candidates_violate_filter:
  "\<not> isl (recommendations_onSubmit three_bed_form draws_zero)
   \<and> map (passes_hard_filters three_bed_form) (projr (recommendations_onSubmit three_bed_form draws_zero))
       = [False, False, False, False, False]
   \<and> map (\<lambda>a. rp_beds (recommended_property a)) (projr (recommendations_onSubmit three_bed_form draws_zero))
       = [2, 2, 2, 2, 2]"
  by (simp add: recommendations_onSubmit_def three_bed_form_def default_recommendation_form_def
      default_preferences_def draws_zero_def
      ToLength_5 upt_5 sort_by_similarity_def mock_recommendation_def Math_floor_def
      passes_hard_filters_def satisfies_filters_def at_least_def at_most_def)

lemma mock_recommendation_ignores_preferences:
  "mock_recommendation (data\<lparr>user_preferences := prefs\<rparr>) rnd = mock_recommendation data rnd"
  by (rule ext) (simp add: mock_recommendation_def)

text \<open>
  C5, amended. The page returns at most as many results as the maximum asked for,
  and none for a negative maximum; for a maximum up to 50, the range of the form, it
  does return. The preferences are not consulted: the result is the same for any
  other preferences. Every returned candidate has 2 to 5 bedrooms, 1 to 3 bathrooms,
  1000 to 2999 square feet, a value from 200000 to 700000 and the type residential.
\<close>

theorem recommendations_count_and_ranges:
  assumes "\<And>k. valid_draw (rnd k)"
  shows "(max_recommendations data \<le> 50 \<longrightarrow> \<not> isl (recommendations_onSubmit data rnd))
    \<and> (\<forall>rs. recommendations_onSubmit data rnd = Inr rs \<longrightarrow>
          real (length rs) \<le> max 0 (max_recommendations data)
        \<and> recommendations_onSubmit (data\<lparr>user_preferences := prefs\<rparr>) rnd = Inr rs
        \<and> (\<forall>a \<in> set rs.
              2 \<le> rp_beds (recommended_property a) \<and> rp_beds (recommended_property a) \<le> 5
            \<and> 1 \<le> rp_baths (recommended_property a) \<and> rp_baths (recommended_property a) \<le> 3
            \<and> 1000 \<le> rp_sqft (recommended_property a) \<and> rp_sqft (recommended_property a) \<le> 2999
            \<and> 200000 \<le> rp_predicted_value (recommended_property a)
            \<and> rp_predicted_value (recommended_property a) \<le> 700000
            \<and> rp_property_type (recommended_property a) = ''residential''))"
proof (intro conjI impI allI)
  assume "max_recommendations data \<le> 50"
  then have "\<not> ToLength (max_recommendations data) > 2 ^ 32 - 1"
    by (rule ToLength_on_form_range)
  then show "\<not> isl (recommendations_onSubmit data rnd)"
    by (simp add: recommendations_onSubmit_def Let_def)
next
  fix rs
  assume run: "recommendations_onSubmit data rnd = Inr rs"
  let ?n = "ToLength (max_recommendations data)"
  from run have small: "\<not> ?n > 2 ^ 32 - 1"
    and rs: "rs = sort_by_similarity (map (mock_recommendation data rnd) [0..<?n])"
    by (auto simp add: recommendations_onSubmit_def Let_def split: if_splits)
  have "length rs = ?n"
    by (simp add: rs sort_by_similarity_def)
  then show "real (length rs) \<le> max 0 (max_recommendations data)"
    using ToLength_le [of "max_recommendations data"] by simp
  show "recommendations_onSubmit (data\<lparr>user_preferences := prefs\<rparr>) rnd = Inr rs"
    using small
    by (simp add: recommendations_onSubmit_def Let_def mock_recommendation_ignores_preferences rs)
  show "\<forall>a \<in> set rs.
              2 \<le> rp_beds (recommended_property a) \<and> rp_beds (recommended_property a) \<le> 5
            \<and> 1 \<le> rp_baths (recommended_property a) \<and> rp_baths (recommended_property a) \<le> 3
            \<and> 1000 \<le> rp_sqft (recommended_property a) \<and> rp_sqft (recommended_property a) \<le> 2999
            \<and> 200000 \<le> rp_predicted_value (recommended_property a)
            \<and> rp_predicted_value (recommended_property a) \<le> 700000
            \<and> rp_property_type (recommended_property a) = ''residential''"
  proof
    fix a
    assume "a \<in> set rs"
    then obtain i where "a = mock_recommendation data rnd i"
      by (auto simp add: rs sort_by_similarity_def)
    then show "2 \<le> rp_beds (recommended_property a) \<and> rp_beds (recommended_property a) \<le> 5
            \<and> 1 \<le> rp_baths (recommended_property a) \<and> rp_baths (recommended_property a) \<le> 3
            \<and> 1000 \<le> rp_sqft (recommended_property a) \<and> rp_sqft (recommended_property a) \<le> 2999
            \<and> 200000 \<le> rp_predicted_value (recommended_property a)
            \<and> rp_predicted_value (recommended_property a) \<le> 700000
            \<and> rp_property_type (recommended_property a) = ''residential''"
      using mock_recommendation_ranges [of rnd data i] assms by simp
  qed
qed

theorem recommendations_count_and_ranges_witness:
  "max_recommendations three_bed_form \<le> 50
   \<and> \<not> isl (recommendations_onSubmit three_bed_form draws_zero)
   \<and> real (length (projr (recommendations_onSubmit three_bed_form draws_zero))) \<le> 5
   \<and> recommendations_onSubmit default_recommendation_form draws_zero
       = recommendations_onSubmit three_bed_form draws_zero"
proof -
  have v: "\<And>k. valid_draw (draws_zero k)"
    by (simp add: valid_draw_def draws_zero_def)
  have m: "max_recommendations three_bed_form = 5"
    by (simp add: three_bed_form_def default_recommendation_form_def)
  have p: "three_bed_form\<lparr>user_preferences := Some default_preferences\<rparr> = default_recommendation_form"
    by (simp add: three_bed_form_def default_recommendation_form_def)
  note t = recommendations_count_and_ranges
    [of draws_zero three_bed_form "Some default_preferences", OF v]
  from t m have n: "\<not> isl (recommendations_onSubmit three_bed_form draws_zero)" by simp
  then obtain rs where rs: "recommendations_onSubmit three_bed_form draws_zero = Inr rs"
    by (cases "recommendations_onSubmit three_bed_form draws_zero") simp_all
  with t have "real (length rs) \<le> max 0 (max_recommendations three_bed_form)"
    and "recommendations_onSubmit (three_bed_form\<lparr>user_preferences := Some default_preferences\<rparr>)
      draws_zero = Inr rs"
    by blast+
  with m p n rs show ?thesis by simp
qed

text \<open>So the preferences the form starts with are met by every returned candidate.\<close>

lemma default_preferences_never_violated:
  assumes "\<And>k. valid_draw (rnd k)"
    and "user_preferences data = Some default_preferences"
    and "recommendations_onSubmit data rnd = Inr rs" and "a \<in> set rs"
  shows "passes_hard_filters data a"
proof -
  from assms(3) assms(4) obtain i where "a = mock_recommendation data rnd i"
    by (auto simp add: recommendations_onSubmit_def sort_by_similarity_def Let_def split: if_splits)
  then show ?thesis
    using mock_recommendation_ranges [of rnd data i] assms(1) assms(2)
    by (simp add: passes_hard_filters_def satisfies_filters_def default_preferences_def
        at_least_def at_most_def)
qed


end
